theory Spec2Isabelle
  imports Complex_Main "HOL-Library.Word" "HOL-Library.Multiset" "HOL-Library.AList"
begin

section \<open>Data model\<close>

text \<open>
  A shallow embedding of the text package of gofpdi (font metrics, show operations, the
  page render state, the text-block scanner and the row/column reconstruction).

  Go's \<open>float64\<close> is idealised as \<open>real\<close>: every arithmetic operation is exact, and
  the special values (infinities, NaN) do not exist. Go's \<open>int\<close> is \<open>int\<close>, \<open>uint8\<close>
  is \<open>8 word\<close>, a Go string is a list of bytes (\<open>char\<close>). Errors and run-time panics
  are values of the type \<open>error\<close>; a function that returns \<open>(v, error)\<close> returns
  \<open>error + v\<close> here.
\<close>

type_synonym float64 = real
type_synonym uint8 = "8 word"

datatype error =
    GlyphOutsideRange uint8 string
  | IndexOutOfRange
  | FontNotFound string
  | ParseXYFailed string
  | ParseSingleFailed string
  | ParseFloatParamsFailed string
  | ParseFloatSyntax string
  | WrongParamCount nat string
  | ParseFontFailed string
  | ParseQuoteFailed string
  | NotValidTextBlock string
  | NestedTextBlock
  | UnrecognizedOperator string string
  | NoAvailableSpace float64

record FontDefinition =
  Name :: string
  Base :: string
  Type :: int
  FirstChar :: uint8
  LastChar :: uint8
  Widths :: "int list"
  Descriptor :: int

section \<open>Font metrics\<close>

text \<open>
  \<open>CalculateGlyphWidth\<close>: the range guard, then the indexed read of \<open>Widths\<close>. Go
  panics on an index beyond the slice; the panic is the value \<open>Inl IndexOutOfRange\<close>.
  The subtraction \<open>char - f.FirstChar\<close> is on \<open>uint8\<close>.
\<close>

definition CalculateGlyphWidth ::
  "FontDefinition \<Rightarrow> uint8 \<Rightarrow> float64 \<Rightarrow> float64 \<Rightarrow> float64 \<Rightarrow> float64 \<Rightarrow> float64
     \<Rightarrow> error + float64" where
  "CalculateGlyphWidth f char tjAdjustment fontSize charSpacing wordSpacing horizontalScaling =
     (if char < FirstChar f \<or> char > LastChar f then Inl (GlyphOutsideRange char (Name f))
      else if length (Widths f) \<le> unat (char - FirstChar f) then Inl IndexOutOfRange
      else
        (let width = (real_of_int (Widths f ! unat (char - FirstChar f)) - tjAdjustment / 1000)
                       * fontSize;
             width = (if char = 32 then width + wordSpacing else width + charSpacing)
         in Inr (width * horizontalScaling)))"

section \<open>The matrix engine\<close>

text \<open>
  \<open>LinearMatrix\<close> holds a fixed \<open>[3][3]float64\<close> array; the field \<open>gIJ\<close> is
  \<open>gridRowCol[I][J]\<close>. Every matrix of a page is a separate object (\<open>Copy\<close> allocates
  a new one), so matrices are values here.
\<close>

record LinearMatrix =
  g00 :: float64
  g01 :: float64
  g02 :: float64
  g10 :: float64
  g11 :: float64
  g12 :: float64
  g20 :: float64
  g21 :: float64
  g22 :: float64

definition NewDefaultMatrix :: LinearMatrix where
  "NewDefaultMatrix =
     \<lparr>g00 = 1, g01 = 0, g02 = 0, g10 = 0, g11 = 1, g12 = 0, g20 = 0, g21 = 0, g22 = 1\<rparr>"

definition Copy :: "LinearMatrix \<Rightarrow> LinearMatrix" where
  "Copy l = \<lparr>g00 = g00 l, g01 = g01 l, g02 = g02 l, g10 = g10 l, g11 = g11 l, g12 = g12 l,
             g20 = g20 l, g21 = g21 l, g22 = g22 l\<rparr>"

definition GetScaleX :: "LinearMatrix \<Rightarrow> float64" where "GetScaleX l = g00 l"
definition GetShearX :: "LinearMatrix \<Rightarrow> float64" where "GetShearX l = g01 l"
definition GetShearY :: "LinearMatrix \<Rightarrow> float64" where "GetShearY l = g10 l"
definition GetScaleY :: "LinearMatrix \<Rightarrow> float64" where "GetScaleY l = g11 l"
definition GetOffsetX :: "LinearMatrix \<Rightarrow> float64" where "GetOffsetX l = g20 l"
definition GetOffsetY :: "LinearMatrix \<Rightarrow> float64" where "GetOffsetY l = g21 l"

definition SetOffsetX :: "LinearMatrix \<Rightarrow> float64 \<Rightarrow> LinearMatrix" where
  "SetOffsetX l v = l\<lparr>g20 := v\<rparr>"

definition SetOffsetY :: "LinearMatrix \<Rightarrow> float64 \<Rightarrow> LinearMatrix" where
  "SetOffsetY l v = l\<lparr>g21 := v\<rparr>"

definition Translate :: "LinearMatrix \<Rightarrow> float64 \<Rightarrow> float64 \<Rightarrow> LinearMatrix" where
  "Translate l offsetX offsetY =
     (let newX = GetScaleX l * offsetX + GetShearY l * offsetY + GetOffsetX l;
          newY = GetShearX l * offsetX + GetScaleY l * offsetY + GetOffsetY l
      in SetOffsetY (SetOffsetX l newX) newY)"

definition Set_matrix ::
  "LinearMatrix \<Rightarrow> float64 \<Rightarrow> float64 \<Rightarrow> float64 \<Rightarrow> float64 \<Rightarrow> float64 \<Rightarrow> float64
     \<Rightarrow> LinearMatrix" where
  "Set_matrix l a b c d e f = l\<lparr>g00 := a, g01 := b, g10 := c, g11 := d, g20 := e, g21 := f\<rparr>"

definition Move :: "LinearMatrix \<Rightarrow> float64 \<Rightarrow> float64 \<Rightarrow> LinearMatrix" where
  "Move l x y =
     (let l1 = SetOffsetX l (GetOffsetX l + x) in SetOffsetY l1 (GetOffsetY l1 + y))"

section \<open>Ranging over a Go string\<close>

text \<open>
  \<open>for i := range s\<close> and \<open>for _, char := range s\<close> visit the UTF-8 encoded code points
  of \<open>s\<close>, not its bytes: \<open>i\<close> is the index of the first byte of a code point and
  \<open>char\<close> its value; a byte that starts no valid encoding is visited alone with the
  value \<open>RuneError\<close>. \<open>DecodeRune\<close> gives the value and the width of the first code
  point of a byte sequence, as Go's decoder does.
\<close>

definition RuneError :: nat where "RuneError = 0xFFFD"

definition rune_size :: "nat \<Rightarrow> nat" where
  "rune_size s0 =
     (if s0 < 0x80 then 1
      else if 0xC2 \<le> s0 \<and> s0 \<le> 0xDF then 2
      else if 0xE0 \<le> s0 \<and> s0 \<le> 0xEF then 3
      else if 0xF0 \<le> s0 \<and> s0 \<le> 0xF4 then 4
      else 0)"

definition accept_lo :: "nat \<Rightarrow> nat" where
  "accept_lo s0 = (if s0 = 0xE0 then 0xA0 else if s0 = 0xF0 then 0x90 else 0x80)"

definition accept_hi :: "nat \<Rightarrow> nat" where
  "accept_hi s0 = (if s0 = 0xED then 0x9F else if s0 = 0xF4 then 0x8F else 0xBF)"

definition continuation :: "nat \<Rightarrow> bool" where
  "continuation b = (0x80 \<le> b \<and> b \<le> 0xBF)"

fun DecodeRune :: "nat list \<Rightarrow> nat \<times> nat" where
  "DecodeRune [] = (RuneError, 0)"
| "DecodeRune (s0 # rest) =
     (let sz = rune_size s0 in
      if sz \<le> 1 then (if s0 < 0x80 then s0 else RuneError, 1)
      else if length rest + 1 < sz then (RuneError, 1)
      else if rest ! 0 < accept_lo s0 \<or> accept_hi s0 < rest ! 0 then (RuneError, 1)
      else if sz \<le> 2 then ((s0 mod 32) * 64 + rest ! 0 mod 64, 2)
      else if \<not> continuation (rest ! 1) then (RuneError, 1)
      else if sz \<le> 3 then
        ((s0 mod 16) * 4096 + (rest ! 0 mod 64) * 64 + rest ! 1 mod 64, 3)
      else if \<not> continuation (rest ! 2) then (RuneError, 1)
      else ((s0 mod 8) * 262144 + (rest ! 0 mod 64) * 4096 + (rest ! 1 mod 64) * 64
              + rest ! 2 mod 64, 4))"

text \<open>
  \<open>range_from i s\<close>: the pairs (index, code point) that a range loop visits in the
  rest \<open>s\<close> of a string whose first byte has index \<open>i\<close>.
\<close>

function range_from :: "nat \<Rightarrow> string \<Rightarrow> (nat \<times> nat) list" where
  "range_from i [] = []"
| "range_from i (c # cs) =
     (let (char, w) = DecodeRune (map of_char (c # cs))
      in (i, char) # range_from (i + w) (drop (w - 1) cs))"
  by pat_completeness auto
termination
  by (relation "measure (\<lambda>(i, s). length s)") auto

definition range_string :: "string \<Rightarrow> (nat \<times> nat) list" where
  "range_string s = range_from 0 s"

section \<open>Show operations\<close>

record ShowChars =
  Text :: string
  HorizAdjust :: float64

text \<open>
  The \<open>Font\<close> of a show operation points to a definition of the page's font table,
  which nothing writes after the page is created: it is held by value.
\<close>

record ShowOperation =
  chars :: "ShowChars list"
  PageNumber :: int
  StartX :: float64
  StartY :: float64
  FontSize :: float64
  Font :: FontDefinition
  CharSpacing :: float64
  WordSpacing :: float64
  Leading :: float64
  Scale :: float64
  RenderMode :: int
  Rise :: float64
  Knockout :: float64

definition MinNonSpecialAscii :: nat where "MinNonSpecialAscii = 32"
definition MaxNonSpecialAscii :: nat where "MaxNonSpecialAscii = 126"
definition LetterPageHeight :: float64 where "LetterPageHeight = 841.89"
definition LetterPageWidth :: float64 where "LetterPageWidth = 595.28"

text \<open>
  \<open>GetText\<close> ranges over the code points of every run and writes \<open>uint8(char)\<close>, the
  code point modulo 256, for those that pass the filter.
\<close>

definition GetText :: "ShowOperation \<Rightarrow> bool \<Rightarrow> string" where
  "GetText s includeSpecial =
     concat (map (\<lambda>charsObject.
        map (\<lambda>(i, char). char_of char)
          (filter (\<lambda>(i, char).
              (char \<ge> MinNonSpecialAscii \<and> char \<le> MaxNonSpecialAscii) \<or> includeSpecial)
            (range_string (Text charsObject))))
       (chars s))"

text \<open>
  \<open>GetWidth\<close>: the inner loop over the indices \<open>i\<close> of one run (\<open>GetWidth_run\<close>),
  the outer loop over the runs (\<open>GetWidth_runs\<close>), with the width added up so far. The
  first glyph error ends both loops.
\<close>

fun GetWidth_run ::
  "ShowOperation \<Rightarrow> ShowChars \<Rightarrow> (nat \<times> nat) list \<Rightarrow> float64 \<Rightarrow> error + float64" where
  "GetWidth_run s lc [] width = Inr width"
| "GetWidth_run s lc ((i, char) # rest) width =
     (case CalculateGlyphWidth (Font s) (of_char (Text lc ! i)) (HorizAdjust lc) (FontSize s)
             (CharSpacing s) (WordSpacing s) (Scale s) of
        Inl calcErr \<Rightarrow> Inl calcErr
      | Inr glyphWidth \<Rightarrow> GetWidth_run s lc rest (width + glyphWidth))"

fun GetWidth_runs :: "ShowOperation \<Rightarrow> ShowChars list \<Rightarrow> float64 \<Rightarrow> error + float64" where
  "GetWidth_runs s [] width = Inr width"
| "GetWidth_runs s (lc # rest) width =
     (case GetWidth_run s lc (range_string (Text lc)) width of
        Inl calcErr \<Rightarrow> Inl calcErr
      | Inr width' \<Rightarrow> GetWidth_runs s rest width')"

definition GetWidth :: "ShowOperation \<Rightarrow> error + float64" where
  "GetWidth s = GetWidth_runs s (chars s) 0"

section \<open>The page render state\<close>

text \<open>
  The fields of \<open>PageRender\<close> that share a name with a field of \<open>ShowOperation\<close> carry
  the receiver's name: \<open>r_Scale r\<close> is \<open>r.Scale\<close>.
\<close>

record PageRender =
  r_PageNumber :: int
  LineMatrix :: LinearMatrix
  TextMatrix :: LinearMatrix
  TransformationMatrix :: LinearMatrix
  LineItems :: "ShowOperation list"
  Fonts :: "string \<rightharpoonup> FontDefinition"
  r_Leading :: float64
  r_CharSpacing :: float64
  r_WordSpacing :: float64
  r_Scale :: float64
  r_FontSize :: float64
  r_RenderMode :: int
  r_Rise :: float64
  r_Knockout :: float64
  FontName :: string

text \<open>The fields that \<open>NewPageRender\<close> does not set hold Go's zero values.\<close>

definition NewPageRender :: "int \<Rightarrow> (string \<rightharpoonup> FontDefinition) \<Rightarrow> PageRender" where
  "NewPageRender pageNumber fonts =
     \<lparr>r_PageNumber = pageNumber,
      LineMatrix = NewDefaultMatrix,
      TextMatrix = NewDefaultMatrix,
      TransformationMatrix = NewDefaultMatrix,
      LineItems = [],
      Fonts = fonts,
      r_Leading = 0, r_CharSpacing = 0, r_WordSpacing = 0, r_Scale = 0, r_FontSize = 0,
      r_RenderMode = 0, r_Rise = 0, r_Knockout = 0, FontName = []\<rparr>"

definition new_line :: "PageRender \<Rightarrow> FontDefinition \<Rightarrow> ShowChars list \<Rightarrow> ShowOperation" where
  "new_line r font cs =
     \<lparr>chars = cs,
      PageNumber = r_PageNumber r,
      StartX = GetOffsetX (TextMatrix r),
      StartY = GetOffsetY (TextMatrix r),
      FontSize = r_FontSize r,
      Font = font,
      CharSpacing = r_CharSpacing r,
      WordSpacing = r_WordSpacing r,
      Leading = r_Leading r,
      Scale = r_Scale r,
      RenderMode = r_RenderMode r,
      Rise = r_Rise r,
      Knockout = r_Knockout r\<rparr>"

definition addLineItem :: "PageRender \<Rightarrow> ShowChars list \<Rightarrow> error + PageRender" where
  "addLineItem r cs =
     (case Fonts r (FontName r) of
        None \<Rightarrow> Inl (FontNotFound (FontName r))
      | Some font \<Rightarrow>
          (let line = new_line r font cs in
           case GetWidth line of
             Inl err \<Rightarrow> Inl err
           | Inr lineWidth \<Rightarrow>
               Inr (r\<lparr>TextMatrix := Translate (TextMatrix r) lineWidth 0,
                      LineItems := LineItems r @ [line]\<rparr>)))"

section \<open>Operand parsing\<close>

text \<open>
  The operand parsers match a regular expression and convert the captured fields with
  \<open>strconv.ParseFloat\<close>. Each expression is anchored and its fields are separated by
  white space, so that a match, when there is one, is unique; the recognisers below
  follow the expressions from left to right. \<open>\s\<close> is tab, newline, form feed,
  carriage return and space; \<open>\d\<close> is an ASCII digit.
\<close>

definition is_space :: "char \<Rightarrow> bool" where
  "is_space c = (c \<in> set [CHR 0x09, CHR 0x0A, CHR 0x0C, CHR 0x0D, CHR '' ''])"

definition is_digit :: "char \<Rightarrow> bool" where
  "is_digit c = (c \<in> set ''0123456789'')"

definition is_numdot :: "char \<Rightarrow> bool" where
  "is_numdot c = (is_digit c \<or> c = CHR ''.'')"

definition is_numdash :: "char \<Rightarrow> bool" where
  "is_numdash c = (is_digit c \<or> c = CHR ''.'' \<or> c = CHR ''-'')"

definition digits_value :: "string \<Rightarrow> nat" where
  "digits_value ds = foldl (\<lambda>n c. 10 * n + (of_char c - 48)) 0 ds"

text \<open>
  \<open>ParseFloat\<close> on the decimal forms: an optional sign, digits with at most one point,
  at least one digit. Every caller passes a string of digits, points and minus signs, on
  which Go's further forms (exponents, hexadecimal, infinities) cannot occur. The value
  is the exact decimal: rounding and the range error of a too large magnitude are outside
  the idealisation of \<open>float64\<close>.
\<close>

definition ParseFloat :: "string \<Rightarrow> error + float64" where
  "ParseFloat s =
     (let neg = (s \<noteq> [] \<and> hd s = CHR ''-'');
          body = (if s \<noteq> [] \<and> (hd s = CHR ''-'' \<or> hd s = CHR ''+'') then tl s else s);
          ip = takeWhile is_digit body;
          r1 = dropWhile is_digit body;
          point = (r1 \<noteq> [] \<and> hd r1 = CHR ''.'');
          fp = (if point then takeWhile is_digit (tl r1) else []);
          r2 = (if point then dropWhile is_digit (tl r1) else r1);
          mant = real (digits_value ip) + real (digits_value fp) / 10 ^ length fp
      in if r2 \<noteq> [] \<or> (ip = [] \<and> fp = []) then Inl (ParseFloatSyntax s)
         else Inr (if neg then - mant else mant))"

text \<open>\<open>is_number t\<close>: the whole of \<open>t\<close> matches \<open>-?\d+(\.\d+)?\<close>.\<close>

definition is_number :: "string \<Rightarrow> bool" where
  "is_number t =
     (let u = (if t \<noteq> [] \<and> hd t = CHR ''-'' then tl t else t);
          ip = takeWhile is_digit u;
          r = dropWhile is_digit u
      in ip \<noteq> [] \<and> (r = [] \<or> (hd r = CHR ''.'' \<and> tl r \<noteq> [] \<and> list_all is_digit (tl r))))"

definition non_space :: "char \<Rightarrow> bool" where
  "non_space c = (\<not> is_space c)"

text \<open>
  \<open>ParseXYValues\<close>, expression \<open>^\s*(?P<x>-?\d+(\.\d+)?)\s+(?P<y>-?\d+(\.\d+)?)\s*$\<close>.
  The error of the first conversion is overwritten by the second one's.
\<close>

definition ParseXYValues :: "string \<Rightarrow> error + (float64 \<times> float64)" where
  "ParseXYValues input =
     (let s1 = dropWhile is_space input;
          x = takeWhile non_space s1;
          s2 = dropWhile non_space s1;
          s3 = dropWhile is_space s2;
          y = takeWhile non_space s3;
          s4 = dropWhile non_space s3
      in if is_number x \<and> s2 \<noteq> s3 \<and> is_number y \<and> dropWhile is_space s4 = [] then
           (case ParseFloat y of
              Inl parseErr \<Rightarrow> Inl parseErr
            | Inr yv \<Rightarrow> Inr (case ParseFloat x of Inl e \<Rightarrow> 0 | Inr xv \<Rightarrow> xv, yv))
         else Inl (ParseXYFailed input))"

text \<open>\<open>ParseSingleValue\<close>, expression \<open>^\s*(?P<value>-?\d+(\.\d+)?)\s*$\<close>.\<close>

definition ParseSingleValue :: "string \<Rightarrow> error + float64" where
  "ParseSingleValue input =
     (let s1 = dropWhile is_space input;
          v = takeWhile non_space s1;
          s2 = dropWhile non_space s1
      in if is_number v \<and> dropWhile is_space s2 = [] then ParseFloat v
         else Inl (ParseSingleFailed input))"

text \<open>
  \<open>GetFloatParams\<close>: all the matches of \<open>(?P<param>-?[\d.]+)\<close>, leftmost first and
  not overlapping (\<open>FindAll_param\<close>), each converted; the first conversion that fails
  ends the loop.
\<close>

function FindAll_param :: "string \<Rightarrow> string list" where
  "FindAll_param [] = []"
| "FindAll_param (c # cs) =
     (if is_numdot c then
        (c # takeWhile is_numdot cs) # FindAll_param (dropWhile is_numdot cs)
      else if c = CHR ''-'' \<and> cs \<noteq> [] \<and> is_numdot (hd cs) then
        (c # takeWhile is_numdot cs) # FindAll_param (dropWhile is_numdot cs)
      else FindAll_param cs)"
  by pat_completeness auto
termination
  by (relation "measure length") (auto simp: less_Suc_eq_le length_dropWhile_le)

fun GetFloatParams_loop :: "string list \<Rightarrow> float64 list \<Rightarrow> error + float64 list" where
  "GetFloatParams_loop [] params = Inr params"
| "GetFloatParams_loop (m # matches) params =
     (case ParseFloat m of
        Inl parseErr \<Rightarrow> Inl parseErr
      | Inr num \<Rightarrow> GetFloatParams_loop matches (params @ [num]))"

definition GetFloatParams :: "string \<Rightarrow> error + float64 list" where
  "GetFloatParams paramString =
     (let matches = FindAll_param paramString
      in if matches = [] then Inl (ParseFloatParamsFailed paramString)
         else GetFloatParams_loop matches [])"

text \<open>
  \<open>ParseTextFields\<close>. \<open>FindString_adjust p\<close> is the match of \<open>[\d.\-]+$\<close> in \<open>p\<close>:
  the longest run of digits, points and minus signs that ends \<open>p\<close>, empty when there
  is none. The loop ranges over the code points of the operand and reads the first byte
  \<open>opString[i]\<close> of each.
\<close>

definition FindString_adjust :: "string \<Rightarrow> string" where
  "FindString_adjust p = rev (takeWhile is_numdash (rev p))"

definition openParen :: char where "openParen = CHR ''(''"
definition closeParen :: char where "closeParen = CHR '')''"
definition backSlash :: char where "backSlash = CHR 0x5C"
definition capitalT :: char where "capitalT = CHR ''T''"
definition singleQuote :: char where "singleQuote = CHR 0x27"
definition doubleQuote :: char where "doubleQuote = CHR 0x22"

fun ParseTextFields_loop ::
  "string \<Rightarrow> (nat \<times> nat) list \<Rightarrow> char \<Rightarrow> float64 \<Rightarrow> bool \<Rightarrow> string \<Rightarrow> ShowChars list
     \<Rightarrow> ShowChars list" where
  "ParseTextFields_loop opString [] b0 adjust insideParen outBuff textCharacters =
     textCharacters"
| "ParseTextFields_loop opString ((i, char) # rest) b0 adjust insideParen outBuff
       textCharacters =
     (let lastByte = b0; b = opString ! i in
      if b = openParen \<and> lastByte \<noteq> backSlash then
        (let match = FindString_adjust (take i opString);
             adjust' = (if match = [] then 1
                        else case ParseFloat match of Inl err \<Rightarrow> 1 | Inr v \<Rightarrow> v)
         in ParseTextFields_loop opString rest b adjust' True [] textCharacters)
      else if b = closeParen \<and> lastByte \<noteq> backSlash then
        (if outBuff \<noteq> [] then
           ParseTextFields_loop opString rest b 0 False outBuff
             (textCharacters @ [\<lparr>Text = outBuff, HorizAdjust = adjust\<rparr>])
         else ParseTextFields_loop opString rest b adjust False outBuff textCharacters)
      else if b = backSlash \<and> lastByte \<noteq> backSlash then
        ParseTextFields_loop opString rest b adjust insideParen outBuff textCharacters
      else if insideParen then
        ParseTextFields_loop opString rest b adjust insideParen (outBuff @ [b]) textCharacters
      else ParseTextFields_loop opString rest b adjust insideParen outBuff textCharacters)"

definition ParseTextFields :: "string \<Rightarrow> ShowChars list" where
  "ParseTextFields opString =
     ParseTextFields_loop opString (range_string opString) (CHR 0x00) 0 False [] []"

section \<open>Operator handlers\<close>

text \<open>
  Every handler takes the page state and returns the updated state or the error. A
  handler that fails ends the block and, in the exporter, the page: the state it leaves
  behind is not read again, and the error alone is returned.
\<close>

definition moveToStartOfNextLine :: "PageRender \<Rightarrow> string \<Rightarrow> bool \<Rightarrow> error + PageRender" where
  "moveToStartOfNextLine r opString setLeading =
     (if opString = [] then
        (let r1 = r\<lparr>LineMatrix :=
                     SetOffsetY (LineMatrix r) (GetOffsetY (LineMatrix r) - r_Leading r)\<rparr>
         in Inr (r1\<lparr>TextMatrix := Copy (LineMatrix r1)\<rparr>))
      else
        (case ParseXYValues opString of
           Inl err \<Rightarrow> Inl err
         | Inr (x, y) \<Rightarrow>
             (let r1 = (if setLeading then r\<lparr>r_Leading := y\<rparr> else r);
                  r2 = r1\<lparr>LineMatrix := Move (LineMatrix r1) x y\<rparr>
              in Inr (r2\<lparr>TextMatrix := Copy (LineMatrix r2)\<rparr>))))"

definition setTextLeading :: "PageRender \<Rightarrow> string \<Rightarrow> error + PageRender" where
  "setTextLeading r opString =
     (case ParseSingleValue opString of
        Inl err \<Rightarrow> Inl err
      | Inr v \<Rightarrow> Inr (r\<lparr>r_Leading := v\<rparr>))"

definition setWordSpacing :: "PageRender \<Rightarrow> string \<Rightarrow> error + PageRender" where
  "setWordSpacing r opString =
     (case ParseSingleValue opString of
        Inl err \<Rightarrow> Inl err
      | Inr v \<Rightarrow> Inr (r\<lparr>r_WordSpacing := v\<rparr>))"

definition setCharSpacing :: "PageRender \<Rightarrow> string \<Rightarrow> error + PageRender" where
  "setCharSpacing r opString =
     (case ParseSingleValue opString of
        Inl err \<Rightarrow> Inl err
      | Inr v \<Rightarrow> Inr (r\<lparr>r_CharSpacing := v\<rparr>))"

definition setScale :: "PageRender \<Rightarrow> string \<Rightarrow> error + PageRender" where
  "setScale r opString =
     (case ParseSingleValue opString of
        Inl err \<Rightarrow> Inl err
      | Inr v \<Rightarrow> Inr (r\<lparr>r_Scale := v / 100\<rparr>))"

definition addText :: "PageRender \<Rightarrow> string \<Rightarrow> error + PageRender" where
  "addText r opString = addLineItem r (ParseTextFields opString)"

text \<open>
  \<open>quoteParser\<close>, expression
  \<open>^\s*(?P<word>[\d.\-]+)\s+(?P<char>[\d.\-]+)\s*(?P<text>.+)$\<close>. The fields \<open>word\<close>
  and the white space after it are fixed by the input. The field \<open>char\<close> and the white
  space after it can give bytes up to \<open>text\<close>, which must be non-empty and free of
  newlines (\<open>.\<close> matches no newline): the candidates are listed in the order in which
  the leftmost-first search tries them (the longest \<open>char\<close> first, then the longest
  white space), and the first that fits is the match.
\<close>

definition quoteParser :: "string \<Rightarrow> (string \<times> string \<times> string) option" where
  "quoteParser opString =
     (let s1 = dropWhile is_space opString;
          word = takeWhile is_numdash s1;
          s2 = dropWhile is_numdash s1;
          s3 = dropWhile is_space s2;
          K = length (takeWhile is_numdash s3);
          candidates =
            concat (map (\<lambda>k. let after = drop k s3;
                                 J = length (takeWhile is_space after)
                             in map (\<lambda>j. (take k s3, drop j after)) (rev [0..<Suc J]))
                      (rev [1..<Suc K]))
      in if word = [] \<or> s2 = s3 then None
         else (case find (\<lambda>(c, t). t \<noteq> [] \<and> CHR 0x0A \<notin> set t) candidates of
                 None \<Rightarrow> None
               | Some (c, t) \<Rightarrow> Some (word, c, t)))"

definition moveToStartOfNextLineAndAddText :: "PageRender \<Rightarrow> string \<Rightarrow> error + PageRender" where
  "moveToStartOfNextLineAndAddText r opString =
     (case quoteParser opString of
        None \<Rightarrow> Inl (ParseQuoteFailed opString)
      | Some (word, char, txt) \<Rightarrow>
          (let r1 = r\<lparr>LineMatrix :=
                       SetOffsetY (LineMatrix r) (GetOffsetY (LineMatrix r) - r_Leading r)\<rparr>;
               r2 = r1\<lparr>TextMatrix := Copy (LineMatrix r1)\<rparr>
           in case setWordSpacing r2 word of
                Inl err \<Rightarrow> Inl err
              | Inr r3 \<Rightarrow>
                  (case setCharSpacing r3 char of
                     Inl err \<Rightarrow> Inl err
                   | Inr r4 \<Rightarrow> addText r4 txt)))"

definition setMatrix :: "PageRender \<Rightarrow> string \<Rightarrow> error + PageRender" where
  "setMatrix r opString =
     (case GetFloatParams opString of
        Inl err \<Rightarrow> Inl err
      | Inr params \<Rightarrow>
          if length params \<noteq> 6 then Inl (WrongParamCount (length params) opString)
          else Inr (r\<lparr>TextMatrix := Set_matrix (TextMatrix r) (params ! 0) (params ! 1)
                                     (params ! 2) (params ! 3) (params ! 4) (params ! 5),
                      LineMatrix := Set_matrix (LineMatrix r) (params ! 0) (params ! 1)
                                     (params ! 2) (params ! 3) (params ! 4) (params ! 5)\<rparr>))"

text \<open>\<open>setTextFont\<close>, expression \<open>^\s*(?P<name>\S+)\s+(?P<size>[\d.]+)\s*$\<close>.\<close>

definition setTextFont :: "PageRender \<Rightarrow> string \<Rightarrow> error + PageRender" where
  "setTextFont r opString =
     (let s1 = dropWhile is_space opString;
          name = takeWhile non_space s1;
          s2 = dropWhile non_space s1;
          s3 = dropWhile is_space s2;
          size = takeWhile non_space s3;
          s4 = dropWhile non_space s3
      in if name \<noteq> [] \<and> s2 \<noteq> s3 \<and> size \<noteq> [] \<and> list_all is_numdot size
            \<and> dropWhile is_space s4 = [] then
           (case ParseFloat size of
              Inl parseErr \<Rightarrow> Inl parseErr
            | Inr v \<Rightarrow> Inr (r\<lparr>FontName := name, r_FontSize := v\<rparr>))
         else Inl (ParseFontFailed opString))"

section \<open>The text-block scanner\<close>

text \<open>
  The \<open>switch\<close> of \<open>AddTextBlock\<close>. For the operator \<open>'\<close> the result of the line move
  is overwritten by the result of \<open>addText\<close>; the line move on an empty operand cannot
  fail.
\<close>

definition dispatch :: "PageRender \<Rightarrow> string \<Rightarrow> string \<Rightarrow> string \<Rightarrow> error + PageRender" where
  "dispatch r operator operandString buff =
     (if operator = ''Td'' then moveToStartOfNextLine r operandString False
      else if operator = ''TD'' then moveToStartOfNextLine r operandString True
      else if operator = ''Tm'' then setMatrix r operandString
      else if operator = ''Tj'' \<or> operator = ''TJ'' then addText r operandString
      else if operator = ''T*'' then moveToStartOfNextLine r [] False
      else if operator = ''TL'' then setTextLeading r operandString
      else if operator = ''Tc'' then setCharSpacing r operandString
      else if operator = ''Tw'' then setWordSpacing r operandString
      else if operator = ''Tz'' then setScale r operandString
      else if operator = ''Tf'' then setTextFont r operandString
      else if operator = [singleQuote] then
        (case moveToStartOfNextLine r [] False of
           Inl err \<Rightarrow> addText r operandString
         | Inr r1 \<Rightarrow> addText r1 operandString)
      else if operator = [doubleQuote] then moveToStartOfNextLineAndAddText r operandString
      else if operator = ''Tr'' \<or> operator = ''Ts'' then Inr r
      else Inl (UnrecognizedOperator operator buff))"

text \<open>
  The state of the scanning loop: the page \<open>r\<close>, the byte \<open>b\<close> read last, the builder
  \<open>opBuilder\<close> and the flag \<open>insideParen\<close>. \<open>scan_step\<close> is one pass of the loop body
  on the next byte. After an operator the source sets \<open>lastByte = 0\<close>, but the next pass
  starts with \<open>lastByte = b\<close>: the byte carried over is the operator's last byte. A split
  point below zero is a slice out of range, a panic.
\<close>

record scan_state =
  sc_r :: PageRender
  sc_b :: char
  sc_opBuilder :: string
  sc_insideParen :: bool

definition after_operator :: "char \<Rightarrow> string \<Rightarrow> nat \<Rightarrow> PageRender \<Rightarrow> error + scan_state" where
  "after_operator c buff n r =
     (if length buff < n then Inl IndexOutOfRange
      else
        (let splitPoint = length buff - n;
             operator = drop splitPoint buff;
             operandString = take splitPoint buff
         in case dispatch r operator operandString buff of
              Inl blockErr \<Rightarrow> Inl blockErr
            | Inr r' \<Rightarrow>
                Inr \<lparr>sc_r = r', sc_b = c, sc_opBuilder = [], sc_insideParen = False\<rparr>))"

definition scan_step :: "scan_state \<Rightarrow> char \<Rightarrow> error + scan_state" where
  "scan_step st c =
     (let lastByte = sc_b st;
          buff = sc_opBuilder st @ [c]
      in if sc_insideParen st then
           (if c = closeParen \<and> lastByte \<noteq> backSlash then
              Inr (st\<lparr>sc_b := c, sc_opBuilder := buff, sc_insideParen := False\<rparr>)
            else Inr (st\<lparr>sc_b := c, sc_opBuilder := buff\<rparr>))
         else if c = openParen \<and> lastByte \<noteq> backSlash then
           Inr (st\<lparr>sc_b := c, sc_opBuilder := buff, sc_insideParen := True\<rparr>)
         else if lastByte = capitalT then after_operator c buff 2 (sc_r st)
         else if c = singleQuote \<or> c = doubleQuote then after_operator c buff 1 (sc_r st)
         else Inr (st\<lparr>sc_b := c, sc_opBuilder := buff\<rparr>))"

fun scan_loop :: "scan_state \<Rightarrow> string \<Rightarrow> error + scan_state" where
  "scan_loop st [] = Inr st"
| "scan_loop st (c # cs) =
     (case scan_step st c of
        Inl blockErr \<Rightarrow> Inl blockErr
      | Inr st' \<Rightarrow> scan_loop st' cs)"

definition scan_start :: "PageRender \<Rightarrow> scan_state" where
  "scan_start r = \<lparr>sc_r = r, sc_b = CHR 0x00, sc_opBuilder = [], sc_insideParen = False\<rparr>"

text \<open>
  \<open>block_contents\<close>, expression \<open>^BT(?P<contents>(?s).*?)ET$\<close>: the block starts with
  \<open>BT\<close> and ends with a separate \<open>ET\<close>; the contents are all the bytes between.
  \<open>Contains\<close> is \<open>strings.Contains\<close>.
\<close>

definition block_contents :: "string \<Rightarrow> string option" where
  "block_contents textBlock =
     (if length textBlock \<ge> 4 \<and> take 2 textBlock = ''BT''
         \<and> drop (length textBlock - 2) textBlock = ''ET''
      then Some (take (length textBlock - 4) (drop 2 textBlock))
      else None)"

fun Contains :: "string \<Rightarrow> string \<Rightarrow> bool" where
  "Contains [] substr = (substr = [])"
| "Contains (c # cs) substr = (take (length substr) (c # cs) = substr \<or> Contains cs substr)"

definition AddTextBlock :: "PageRender \<Rightarrow> string \<Rightarrow> error + PageRender" where
  "AddTextBlock r textBlock =
     (case block_contents textBlock of
        None \<Rightarrow> Inl (NotValidTextBlock textBlock)
      | Some contents \<Rightarrow>
          if Contains contents ''BT'' \<or> Contains contents ''ET'' then Inl NestedTextBlock
          else (case scan_loop (scan_start r) contents of
                  Inl blockErr \<Rightarrow> Inl blockErr
                | Inr st \<Rightarrow> Inr (sc_r st)))"

section \<open>Row and column reconstruction\<close>

text \<open>
  A Go map is an association list with one entry per key: \<open>map_of\<close> looks a key up,
  \<open>AList.update\<close> stores a value (in place for a key that is present). A row of the index
  is a map from the column to the show operation, the index a map from the row number to
  the row. Maps are references in Go: a store into a row of the index is a store into the
  index, which the loop of \<open>GetIndexedShowOps\<close> writes out.
\<close>

type_synonym row_map = "(float64 \<times> ShowOperation) list"
type_synonym index_map = "(int \<times> row_map) list"

definition rowInsertionPrecision :: float64 where "rowInsertionPrecision = 0.0000001"
definition maxRowInsertVariance :: float64 where "maxRowInsertVariance = 50.0"
definition minRowInsertBoundary :: float64 where "minRowInsertBoundary = 1"
definition maxRowInsertBoundary :: float64 where "maxRowInsertBoundary = LetterPageWidth"

text \<open>
  The loop of \<open>InsertShowOpIntoRow\<close>, with the loop variable \<open>f\<close> as an argument. It
  returns the placement (or the error) and the row as the stores left it; both stores of
  the source write the key \<open>index\<close>.
\<close>

function InsertShowOpIntoRow_loop ::
  "ShowOperation \<Rightarrow> float64 \<Rightarrow> row_map \<Rightarrow> float64 \<Rightarrow> (error + float64) \<times> row_map" where
  "InsertShowOpIntoRow_loop object index targetMap f =
     (if f \<le> maxRowInsertVariance then
        (if map_of targetMap (index + f) = None \<and> index + f \<le> maxRowInsertBoundary then
           (Inr (index + f), AList.update index object targetMap)
         else if map_of targetMap (index - f) = None \<and> index - f \<ge> minRowInsertBoundary then
           (Inr (index - f), AList.update index object targetMap)
         else InsertShowOpIntoRow_loop object index targetMap (f + rowInsertionPrecision))
      else (Inl (NoAvailableSpace index), targetMap))"
  by pat_completeness auto
termination
proof (relation "measure (\<lambda>(object, index, targetMap, f).
                    nat (\<lfloor>(maxRowInsertVariance - f) / rowInsertionPrecision\<rfloor> + 1))")
  show "wf (measure (\<lambda>(object, index, targetMap, f).
              nat (\<lfloor>(maxRowInsertVariance - f) / rowInsertionPrecision\<rfloor> + 1)))"
    by simp
next
  fix object :: ShowOperation and index :: float64 and targetMap :: row_map and f :: float64
  assume le: "f \<le> maxRowInsertVariance"
  have step: "(maxRowInsertVariance - (f + rowInsertionPrecision)) / rowInsertionPrecision
                = (maxRowInsertVariance - f) / rowInsertionPrecision - 1"
    by (simp add: rowInsertionPrecision_def field_simps)
  have "0 \<le> (maxRowInsertVariance - f) / rowInsertionPrecision"
    using le by (simp add: rowInsertionPrecision_def)
  then have "0 \<le> \<lfloor>(maxRowInsertVariance - f) / rowInsertionPrecision\<rfloor>"
    by simp
  then show "((object, index, targetMap, f + rowInsertionPrecision),
              (object, index, targetMap, f))
         \<in> measure (\<lambda>(object, index, targetMap, f).
              nat (\<lfloor>(maxRowInsertVariance - f) / rowInsertionPrecision\<rfloor> + 1))"
    by (simp add: step)
qed

declare InsertShowOpIntoRow_loop.simps [simp del]

definition InsertShowOpIntoRow ::
  "ShowOperation \<Rightarrow> float64 \<Rightarrow> row_map \<Rightarrow> (error + float64) \<times> row_map" where
  "InsertShowOpIntoRow object desiredIndex targetMap =
     InsertShowOpIntoRow_loop object desiredIndex targetMap 0"

text \<open>
  The conversion \<open>int(x)\<close> of a \<open>float64\<close> discards the fraction: it rounds towards
  zero.
\<close>

definition go_int :: "float64 \<Rightarrow> int" where
  "go_int x = (if x \<ge> 0 then \<lfloor>x\<rfloor> else \<lceil>x\<rceil>)"

definition rowNumber :: "ShowOperation \<Rightarrow> int" where
  "rowNumber showOp = go_int (StartY showOp / 10)"

text \<open>
  The first loop of \<open>GetIndexedShowOps\<close>, over the line items, with the index and
  \<open>pageErr\<close> as they stand. An insertion into a row that exists assigns \<open>pageErr\<close>
  (\<open>None\<close> is Go's \<open>nil\<close>); the loop goes on whatever the result.
\<close>

fun index_loop ::
  "ShowOperation list \<Rightarrow> index_map \<Rightarrow> error option \<Rightarrow> index_map \<times> error option" where
  "index_loop [] showOps pageErr = (showOps, pageErr)"
| "index_loop (showOp # rest) showOps pageErr =
     (let mapKeyX = StartX showOp in
      case map_of showOps (rowNumber showOp) of
        Some row \<Rightarrow>
          (case InsertShowOpIntoRow showOp mapKeyX row of
             (res, row') \<Rightarrow>
               index_loop rest (AList.update (rowNumber showOp) row' showOps)
                 (case res of Inl err \<Rightarrow> Some err | Inr placed \<Rightarrow> None))
      | None \<Rightarrow>
          index_loop rest (AList.update (rowNumber showOp) [(mapKeyX, showOp)] showOps)
            pageErr)"

text \<open>
  The second loop. A \<open>range\<close> over a map visits every key once, in an order that Go
  leaves open: the orders are the parameters \<open>orderY\<close> (for the index) and \<open>orderX\<close>
  (for a row), applied to the keys. \<open>sort.Float64s\<close> sorts ascending, and
  \<open>sort.Sort(sort.Reverse(...))\<close> descending. The keys looked up come from the map
  itself, so that a lookup finds its entry.
\<close>

definition is_order :: "('k list \<Rightarrow> 'k list) \<Rightarrow> bool" where
  "is_order ord = (\<forall>ks. mset (ord ks) = mset ks)"

definition row_text :: "(float64 list \<Rightarrow> float64 list) \<Rightarrow> row_map \<Rightarrow> string" where
  "row_text orderX row =
     (let indicesX = sort (orderX (map fst row))
      in concat (map (\<lambda>posX. case map_of row posX of
                               Some showOp \<Rightarrow> GetText showOp False
                             | None \<Rightarrow> [])
                   indicesX) @ [CHR 0x0A])"

definition GetIndexedShowOps ::
  "(int list \<Rightarrow> int list) \<Rightarrow> (float64 list \<Rightarrow> float64 list) \<Rightarrow> PageRender
     \<Rightarrow> index_map \<times> string \<times> error option" where
  "GetIndexedShowOps orderY orderX r =
     (case index_loop (LineItems r) [] None of
        (showOps, pageErr) \<Rightarrow>
          (let indicesY = rev (sort (orderY (map fst showOps)));
               txt = concat (map (\<lambda>posY. case map_of showOps posY of
                                           Some row \<Rightarrow> row_text orderX row
                                         | None \<Rightarrow> [CHR 0x0A])
                               indicesY)
           in (showOps, txt, pageErr)))"

section \<open>The exporter's page loop\<close>

text \<open>
  \<open>getTextShowOperations\<close> of the exporter, from the text blocks and the font table that
  the reader returned for the page.
\<close>

fun AddTextBlocks :: "PageRender \<Rightarrow> string list \<Rightarrow> error + PageRender" where
  "AddTextBlocks page [] = Inr page"
| "AddTextBlocks page (block # blocks) =
     (case AddTextBlock page block of
        Inl err \<Rightarrow> Inl err
      | Inr page' \<Rightarrow> AddTextBlocks page' blocks)"

definition getTextShowOperations ::
  "(int list \<Rightarrow> int list) \<Rightarrow> (float64 list \<Rightarrow> float64 list) \<Rightarrow> int \<Rightarrow> string list
     \<Rightarrow> (string \<rightharpoonup> FontDefinition) \<Rightarrow> index_map \<times> string \<times> error option" where
  "getTextShowOperations orderY orderX pageNumber blocks pageFonts =
     (case AddTextBlocks (NewPageRender pageNumber pageFonts) blocks of
        Inl err \<Rightarrow> ([], [], Some err)
      | Inr page \<Rightarrow> GetIndexedShowOps orderY orderX page)"

section \<open>Example inputs\<close>

text \<open>
  A fixed-pitch font under the name that the operand \<open>/F1 12\<close> of \<open>Tf\<close> selects, with a
  width for every code of its range, and a font whose table is shorter than its range.
\<close>

definition courier_F1 :: FontDefinition where
  "courier_F1 =
     \<lparr>Name = ''/F1'', Base = ''Courier'', Type = 1, FirstChar = 32, LastChar = 126,
      Widths = replicate 95 600, Descriptor = 0\<rparr>"

definition short_font :: FontDefinition where
  "short_font =
     \<lparr>Name = ''/F2'', Base = ''Courier'', Type = 1, FirstChar = 32, LastChar = 126,
      Widths = [600, 600], Descriptor = 0\<rparr>"

text \<open>
  The page that the block \<open>BT 10 20 Td /F1 12 Tf (Hi) Tj ET\<close> leaves when the font table
  maps \<open>/F1\<close> to \<open>font\<close>, its only line item, and the page as it is before the \<open>Tj\<close>
  of the block.
\<close>

definition hi_line :: "int \<Rightarrow> FontDefinition \<Rightarrow> ShowOperation" where
  "hi_line n font =
     \<lparr>chars = [\<lparr>Text = ''Hi'', HorizAdjust = 1\<rparr>], PageNumber = n, StartX = 10, StartY = 20,
      FontSize = 12, Font = font, CharSpacing = 0, WordSpacing = 0, Leading = 0,
      Scale = 0, RenderMode = 0, Rise = 0, Knockout = 0\<rparr>"

definition hi_page :: "int \<Rightarrow> (string \<rightharpoonup> FontDefinition) \<Rightarrow> FontDefinition \<Rightarrow> PageRender" where
  "hi_page n fonts font =
     (NewPageRender n fonts)
       \<lparr>LineMatrix := NewDefaultMatrix\<lparr>g20 := 10, g21 := 20\<rparr>,
        TextMatrix := NewDefaultMatrix\<lparr>g20 := 10, g21 := 20\<rparr>,
        LineItems := [hi_line n font], r_FontSize := 12, FontName := ''/F1''\<rparr>"

definition fonts_F1 :: "string \<rightharpoonup> FontDefinition" where
  "fonts_F1 = [''/F1'' \<mapsto> courier_F1]"



text \<open>
  A show operation of one run at a given start, as \<open>addLineItem\<close> builds it on page 1
  after \<open>/F1 12 Tf\<close>; a page that holds given line items; and the page that the block
  \<open>BT /F1 12 Tf 5 100 Td (first-text) Tj (second-text) Tj ET\<close> leaves.
\<close>

definition show_at :: "string \<Rightarrow> float64 \<Rightarrow> float64 \<Rightarrow> ShowOperation" where
  "show_at s x y =
     \<lparr>chars = [\<lparr>Text = s, HorizAdjust = 1\<rparr>], PageNumber = 1, StartX = x, StartY = y,
      FontSize = 12, Font = courier_F1, CharSpacing = 0, WordSpacing = 0, Leading = 0,
      Scale = 0, RenderMode = 0, Rise = 0, Knockout = 0\<rparr>"

definition items_page :: "ShowOperation list \<Rightarrow> PageRender" where
  "items_page ops = (NewPageRender 1 fonts_F1)\<lparr>LineItems := ops\<rparr>"

definition collide_page :: PageRender where
  "collide_page =
     (NewPageRender 1 fonts_F1)
       \<lparr>LineMatrix := NewDefaultMatrix\<lparr>g20 := 5, g21 := 100\<rparr>,
        TextMatrix := NewDefaultMatrix\<lparr>g20 := 5, g21 := 100\<rparr>,
        LineItems := [show_at ''first-text'' 5 100, show_at ''second-text'' 5 100],
        r_FontSize := 12, FontName := ''/F1''\<rparr>"

section \<open>Notions of the statements\<close>

text \<open>The operators that the \<open>switch\<close> of \<open>AddTextBlock\<close> has a case for.\<close>

definition recognized_operators :: "string list" where
  "recognized_operators =
     [''Td'', ''TD'', ''Tm'', ''Tj'', ''TJ'', ''T*'', ''TL'', ''Tc'', ''Tw'', ''Tz'', ''Tf'',
      [singleQuote], [doubleQuote], ''Tr'', ''Ts'']"

text \<open>
  An invariant of the scanning loop: the builder ends with the byte read last, and an
  empty builder does not follow a capital T.
\<close>

definition builder_ok :: "scan_state \<Rightarrow> bool" where
  "builder_ok st =
     (if sc_opBuilder st = [] then sc_b st \<noteq> capitalT
      else last (sc_opBuilder st) = sc_b st)"




section \<open>Glyph widths\<close>

text \<open>
  Claim C2. For a character code inside the font's range that the width table covers,
  \<open>CalculateGlyphWidth\<close> succeeds with
  \<open>((Widths[c - FirstChar] - adj/1000) * fontSize + s) * horizScale\<close>, where \<open>s\<close> is the
  word spacing for the code 0x20 and the character spacing otherwise; for a code outside
  the range it fails with the range error. The result is a function of the font and the
  six arguments alone.
\<close>

theorem CalculateGlyphWidth_formula:
  "(FirstChar f \<le> c \<and> c \<le> LastChar f \<and> unat (c - FirstChar f) < length (Widths f) \<longrightarrow>
      CalculateGlyphWidth f c adj fontSize charSpacing wordSpacing horizScale =
        Inr (((real_of_int (Widths f ! unat (c - FirstChar f)) - adj / 1000) * fontSize
              + (if c = 0x20 then wordSpacing else charSpacing)) * horizScale))
   \<and> (c < FirstChar f \<or> LastChar f < c \<longrightarrow>
      CalculateGlyphWidth f c adj fontSize charSpacing wordSpacing horizScale =
        Inl (GlyphOutsideRange c (Name f)))"
  by (auto simp: CalculateGlyphWidth_def Let_def)

theorem CalculateGlyphWidth_formula_witness:
  "CalculateGlyphWidth courier_F1 72 1 12 3 5 2 = Inr (((600 - 1 / 1000) * 12 + 3) * 2)
   \<and> CalculateGlyphWidth courier_F1 32 1 12 3 5 2 = Inr (((600 - 1 / 1000) * 12 + 5) * 2)
   \<and> CalculateGlyphWidth courier_F1 10 1 12 3 5 2 = Inl (GlyphOutsideRange 10 ''/F1'')"
  using CalculateGlyphWidth_formula [of courier_F1 72 1 12 3 5 2]
    CalculateGlyphWidth_formula [of courier_F1 32 1 12 3 5 2]
    CalculateGlyphWidth_formula [of courier_F1 10 1 12 3 5 2]
  by (simp add: courier_F1_def)

text \<open>
  Claim C10. For a character code inside the font's range, \<open>CalculateGlyphWidth\<close> reads
  \<open>Widths[c - FirstChar]\<close> with no check of the table's length: the index is the
  difference of the two codes, the call returns a width exactly when the table is longer
  than the index, and it panics with an index out of range exactly when it is not. The
  range guard does not exclude the panic.
\<close>

theorem CalculateGlyphWidth_index_bounds:
  assumes "FirstChar f \<le> c" and "c \<le> LastChar f"
  shows "unat (c - FirstChar f) = unat c - unat (FirstChar f)
    \<and> ((\<exists>w. CalculateGlyphWidth f c adj fontSize charSpacing wordSpacing horizScale = Inr w)
         = (unat (c - FirstChar f) < length (Widths f)))
    \<and> ((CalculateGlyphWidth f c adj fontSize charSpacing wordSpacing horizScale
          = Inl IndexOutOfRange)
         = (length (Widths f) \<le> unat (c - FirstChar f)))"
proof -
  have "unat (c - FirstChar f) = unat c - unat (FirstChar f)"
    using assms(1) by (rule unat_sub)
  moreover have "\<not> (c < FirstChar f \<or> c > LastChar f)"
    using assms by auto
  ultimately show ?thesis
    by (auto simp: CalculateGlyphWidth_def Let_def)
qed

theorem CalculateGlyphWidth_index_bounds_witness:
  "FirstChar short_font \<le> 65 \<and> 65 \<le> LastChar short_font
   \<and> CalculateGlyphWidth short_font 65 1 12 0 0 1 = Inl IndexOutOfRange
   \<and> (\<exists>w. CalculateGlyphWidth short_font 33 1 12 0 0 1 = Inr w)"
  using CalculateGlyphWidth_index_bounds [of short_font 65 1 12 0 0 1]
    CalculateGlyphWidth_index_bounds [of short_font 33 1 12 0 0 1]
  by (simp add: short_font_def)

section \<open>The scanning loop\<close>

lemma scan_loop_append:
  "scan_loop st (xs @ ys) =
     (case scan_loop st xs of Inl e \<Rightarrow> Inl e | Inr st' \<Rightarrow> scan_loop st' ys)"
  by (induction xs arbitrary: st) (auto split: sum.splits)

lemma dispatch_recognized:
  "dispatch r operator operandString buff = Inr r' \<Longrightarrow> operator \<in> set recognized_operators"
  by (auto simp: dispatch_def recognized_operators_def split: if_splits)

lemma dispatch_unrecognized:
  "operator \<notin> set recognized_operators \<Longrightarrow>
     dispatch r operator operandString buff = Inl (UnrecognizedOperator operator buff)"
  by (auto simp: dispatch_def recognized_operators_def)

lemma recognized_last:
  "operator \<in> set recognized_operators \<Longrightarrow> last operator \<noteq> capitalT"
  by (auto simp: recognized_operators_def capitalT_def singleQuote_def doubleQuote_def)

lemma scan_step_builder_ok:
  assumes "builder_ok st" and "scan_step st c = Inr st'"
  shows "builder_ok st'"
proof -
  have op: "builder_ok st'"
    if "after_operator c (sc_opBuilder st @ [c]) n (sc_r st) = Inr st'" "n = 1 \<or> n = 2" for n
  proof -
    from that obtain r' where
      d: "dispatch (sc_r st) (drop (length (sc_opBuilder st @ [c]) - n) (sc_opBuilder st @ [c]))
            (take (length (sc_opBuilder st @ [c]) - n) (sc_opBuilder st @ [c]))
            (sc_opBuilder st @ [c]) = Inr r'"
      and st': "st' = \<lparr>sc_r = r', sc_b = c, sc_opBuilder = [], sc_insideParen = False\<rparr>"
      and len: "n \<le> length (sc_opBuilder st @ [c])"
      by (auto simp: after_operator_def Let_def split: if_splits sum.splits)
    from d have "last (drop (length (sc_opBuilder st @ [c]) - n) (sc_opBuilder st @ [c])) \<noteq> capitalT"
      by (intro recognized_last dispatch_recognized)
    moreover have "last (drop (length (sc_opBuilder st @ [c]) - n) (sc_opBuilder st @ [c])) = c"
      using that(2) len by (auto simp: last_drop)
    ultimately show ?thesis by (simp add: st' builder_ok_def)
  qed
  from assms(2) consider
      (acc) "sc_opBuilder st' = sc_opBuilder st @ [c]" "sc_b st' = c"
    | (op2) "after_operator c (sc_opBuilder st @ [c]) 2 (sc_r st) = Inr st'"
    | (op1) "after_operator c (sc_opBuilder st @ [c]) 1 (sc_r st) = Inr st'"
    by (auto simp: scan_step_def Let_def split: if_splits)
  then show ?thesis
  proof cases
    case acc
    then show ?thesis by (simp add: builder_ok_def)
  next
    case op2
    then show ?thesis by (rule op) simp
  next
    case op1
    then show ?thesis by (rule op) simp
  qed
qed

lemma scan_loop_builder_ok:
  "builder_ok st \<Longrightarrow> scan_loop st cs = Inr st' \<Longrightarrow> builder_ok st'"
  by (induction cs arbitrary: st) (auto split: sum.splits dest: scan_step_builder_ok)

lemma scan_start_builder_ok: "builder_ok (scan_start r)"
  by (simp add: builder_ok_def scan_start_def capitalT_def)

lemma operator_after_T:
  assumes "builder_ok st" and "sc_b st = capitalT"
  shows "length (sc_opBuilder st @ [c]) \<ge> 2"
    and "drop (length (sc_opBuilder st @ [c]) - 2) (sc_opBuilder st @ [c]) = [capitalT, c]"
proof -
  from assms have ne: "sc_opBuilder st \<noteq> []" and l: "last (sc_opBuilder st) = capitalT"
    by (auto simp: builder_ok_def split: if_splits)
  then obtain ys where ys: "sc_opBuilder st = ys @ [capitalT]"
    by (metis append_butlast_last_id)
  show "length (sc_opBuilder st @ [c]) \<ge> 2" using ne by (cases "sc_opBuilder st") auto
  show "drop (length (sc_opBuilder st @ [c]) - 2) (sc_opBuilder st @ [c]) = [capitalT, c]"
    by (simp add: ys)
qed


lemma scan_step_after_T:
  assumes "builder_ok st" and "\<not> sc_insideParen st" and "sc_b st = capitalT"
    and "c \<noteq> openParen"
  shows "scan_step st c =
           (case dispatch (sc_r st) [capitalT, c] (butlast (sc_opBuilder st))
                   (sc_opBuilder st @ [c]) of
              Inl blockErr \<Rightarrow> Inl blockErr
            | Inr r' \<Rightarrow> Inr \<lparr>sc_r = r', sc_b = c, sc_opBuilder = [], sc_insideParen = False\<rparr>)"
proof -
  from assms(1,3) have ne: "sc_opBuilder st \<noteq> []" and l: "last (sc_opBuilder st) = capitalT"
    by (auto simp: builder_ok_def split: if_splits)
  then obtain ys where ys: "sc_opBuilder st = ys @ [capitalT]"
    by (metis append_butlast_last_id)
  show ?thesis
    using assms(2,3,4) by (simp add: scan_step_def after_operator_def Let_def ys)
qed


lemma scan_loop_plain:
  assumes "\<not> sc_insideParen st" and "sc_b st \<noteq> capitalT"
    and "set cs \<inter> {capitalT, singleQuote, doubleQuote, openParen} = {}"
  shows "\<exists>st'. scan_loop st cs = Inr st' \<and> sc_r st' = sc_r st
           \<and> sc_opBuilder st' = sc_opBuilder st @ cs"
  using assms
proof (induction cs arbitrary: st)
  case Nil
  then show ?case by simp
next
  case (Cons c cs)
  let ?st1 = "st\<lparr>sc_b := c, sc_opBuilder := sc_opBuilder st @ [c]\<rparr>"
  from Cons.prems have c: "c \<noteq> capitalT" "c \<noteq> singleQuote" "c \<noteq> doubleQuote"
    "c \<noteq> openParen"
    by auto
  with Cons.prems(1,2) have step: "scan_step st c = Inr ?st1"
    by (simp add: scan_step_def Let_def)
  from Cons.prems have "\<exists>st'. scan_loop ?st1 cs = Inr st' \<and> sc_r st' = sc_r ?st1
           \<and> sc_opBuilder st' = sc_opBuilder ?st1 @ cs"
    using c by (intro Cons.IH) auto
  then show ?case by (simp add: step)
qed

section \<open>Unrecognized operators and string literals\<close>

text \<open>Unfolding rules for evaluating the scanner on a given block.\<close>

lemmas parse_ev = is_space_def is_digit_def is_numdot_def is_numdash_def digits_value_def
  ParseFloat_def is_number_def non_space_def ParseXYValues_def ParseSingleValue_def
  GetFloatParams_def FindString_adjust_def openParen_def closeParen_def backSlash_def
  ParseTextFields_def range_string_def rune_size_def Let_def capitalT_def singleQuote_def
  doubleQuote_def quoteParser_def

lemmas scan_ev = block_contents_def AddTextBlock_def scan_start_def scan_step_def
  after_operator_def dispatch_def moveToStartOfNextLine_def setTextFont_def addText_def
  setMatrix_def

lemmas mat_ev = NewDefaultMatrix_def Copy_def GetScaleX_def GetShearX_def GetShearY_def
  GetScaleY_def GetOffsetX_def GetOffsetY_def SetOffsetX_def SetOffsetY_def Translate_def
  Move_def Set_matrix_def

text \<open>
  Claim C3, as amended. In a block that is validly delimited: when the scanner has read
  the bytes \<open>pre\<close> without an error, stands outside a string literal just after a capital
  T, and the next byte \<open>c\<close> is not an opening parenthesis, then a token \<open>Tc\<close> outside
  the recognized set makes \<open>AddTextBlock\<close> return an error, the unrecognized-operator
  error unless the contents hold an inner \<open>BT\<close> or \<open>ET\<close>. Operators are recognized by the
  capital T or by a quote only: a block whose contents have no capital T, no quote and no
  opening parenthesis is accepted whatever it holds, and leaves the page as it was.
\<close>

theorem AddTextBlock_unrecognized:
  "(block_contents textBlock = Some (pre @ c # post)
      \<and> scan_loop (scan_start r) pre = Inr st
      \<and> \<not> sc_insideParen st \<and> sc_b st = capitalT \<and> c \<noteq> openParen
      \<and> [capitalT, c] \<notin> set recognized_operators
    \<longrightarrow> AddTextBlock r textBlock
          = Inl (if Contains (pre @ c # post) ''BT'' \<or> Contains (pre @ c # post) ''ET''
                 then NestedTextBlock
                 else UnrecognizedOperator [capitalT, c] (sc_opBuilder st @ [c])))
   \<and> (block_contents textBlock = Some contents
      \<and> \<not> Contains contents ''BT'' \<and> \<not> Contains contents ''ET''
      \<and> set contents \<inter> {capitalT, singleQuote, doubleQuote, openParen} = {}
    \<longrightarrow> AddTextBlock r textBlock = Inr r)"
proof (intro conjI impI)
  assume a: "block_contents textBlock = Some (pre @ c # post)
      \<and> scan_loop (scan_start r) pre = Inr st
      \<and> \<not> sc_insideParen st \<and> sc_b st = capitalT \<and> c \<noteq> openParen
      \<and> [capitalT, c] \<notin> set recognized_operators"
  then have ok: "builder_ok st"
    using scan_loop_builder_ok [OF scan_start_builder_ok] by blast
  from a have "scan_step st c = Inl (UnrecognizedOperator [capitalT, c] (sc_opBuilder st @ [c]))"
    by (simp add: scan_step_after_T [OF ok] dispatch_unrecognized)
  then have "scan_loop (scan_start r) (pre @ c # post)
               = Inl (UnrecognizedOperator [capitalT, c] (sc_opBuilder st @ [c]))"
    using a by (simp add: scan_loop_append)
  then show "AddTextBlock r textBlock
               = Inl (if Contains (pre @ c # post) ''BT'' \<or> Contains (pre @ c # post) ''ET''
                      then NestedTextBlock
                      else UnrecognizedOperator [capitalT, c] (sc_opBuilder st @ [c]))"
    using a by (simp add: AddTextBlock_def)
next
  assume a: "block_contents textBlock = Some contents
      \<and> \<not> Contains contents ''BT'' \<and> \<not> Contains contents ''ET''
      \<and> set contents \<inter> {capitalT, singleQuote, doubleQuote, openParen} = {}"
  have "\<exists>st'. scan_loop (scan_start r) contents = Inr st' \<and> sc_r st' = sc_r (scan_start r)
           \<and> sc_opBuilder st' = sc_opBuilder (scan_start r) @ contents"
    using a by (intro scan_loop_plain) (simp_all add: scan_start_def capitalT_def)
  then show "AddTextBlock r textBlock = Inr r"
    using a by (auto simp: AddTextBlock_def scan_start_def)
qed

theorem AddTextBlock_unrecognized_witness:
  "AddTextBlock (NewPageRender 1 Map.empty) ''BT 1 0 0 rg 5 Tx ET''
     = Inl (UnrecognizedOperator ''Tx'' '' 1 0 0 rg 5 Tx'')
   \<and> AddTextBlock (NewPageRender 1 Map.empty) ''BT 0.5 g q ET'' = Inr (NewPageRender 1 Map.empty)"
proof -
  have pre: "scan_loop (scan_start (NewPageRender 1 Map.empty)) '' 1 0 0 rg 5 T''
         = Inr \<lparr>sc_r = NewPageRender 1 Map.empty, sc_b = CHR ''T'',
                sc_opBuilder = '' 1 0 0 rg 5 T'', sc_insideParen = False\<rparr>"
    by (simp add: scan_start_def scan_step_def parse_ev)
  have c1: "block_contents ''BT 1 0 0 rg 5 Tx ET'' = Some ('' 1 0 0 rg 5 T'' @ CHR ''x'' # '' '')"
    by (simp add: block_contents_def)
  have c2: "block_contents ''BT 0.5 g q ET'' = Some '' 0.5 g q ''"
    by (simp add: block_contents_def)
  show ?thesis
    using AddTextBlock_unrecognized [of "''BT 1 0 0 rg 5 Tx ET''" "'' 1 0 0 rg 5 T''" "CHR ''x''"
        "'' ''" "NewPageRender 1 Map.empty" 
        "\<lparr>sc_r = NewPageRender 1 Map.empty, sc_b = CHR ''T'',
                sc_opBuilder = '' 1 0 0 rg 5 T'', sc_insideParen = False\<rparr>" "[]"]
      AddTextBlock_unrecognized [of "''BT 0.5 g q ET''" "[]" "CHR ''x''" "[]"
        "NewPageRender 1 Map.empty" "scan_start (NewPageRender 1 Map.empty)" "'' 0.5 g q ''"]
    unfolding c1 c2 pre
    by (simp add: recognized_operators_def parse_ev)
qed

text \<open>
  The claim as stated fails: \<open>rg\<close> and \<open>q\<close> are operators outside the recognized set
  and outside every string literal; the first block is accepted with the operator
  skipped, and in the second the operator is taken into the operand of \<open>Tm\<close>, which
  then sets both matrices.
\<close>

theorem AddTextBlock_skips_operator:
  "AddTextBlock (NewPageRender 1 Map.empty) ''BT 1 0 0 rg ET'' = Inr (NewPageRender 1 Map.empty)
   \<and> AddTextBlock (NewPageRender 1 Map.empty) ''BT q 1 0 0 1 10 20 Tm ET''
       = Inr ((NewPageRender 1 Map.empty)
               \<lparr>LineMatrix := NewDefaultMatrix\<lparr>g20 := 10, g21 := 20\<rparr>,
                TextMatrix := NewDefaultMatrix\<lparr>g20 := 10, g21 := 20\<rparr>\<rparr>)"
  by (simp add: scan_ev parse_ev mat_ev NewPageRender_def)

lemma scan_step_inside:
  "sc_insideParen st \<Longrightarrow> \<exists>st'. scan_step st c = Inr st' \<and> sc_r st' = sc_r st"
  by (simp add: scan_step_def Let_def)

text \<open>
  Claim C5. Inside a string literal the scanning loop hands no byte to the operator
  switch (\<open>scan_step_inside\<close>). The guard before the loop, however, searches the whole
  contents for \<open>BT\<close> and \<open>ET\<close>, literals included: the block \<open>BT (BUDGET) Tj ET\<close> is
  rejected as holding another block marker, on every page state.
\<close>

theorem AddTextBlock_rejects_literal_ET:
  "AddTextBlock r ''BT (BUDGET) Tj ET'' = Inl NestedTextBlock"
  by (simp add: AddTextBlock_def block_contents_def)

section \<open>The horizontal scale of a fresh page\<close>






























section \<open>The block of the text Hi\<close>

lemma sort_is_order: "is_order ord \<Longrightarrow> sort (ord ks) = sort ks"
  by (rule properties_for_sort) (simp_all add: is_order_def)

lemma GetWidth_hi_line:
  assumes "FirstChar font \<le> 72" "72 \<le> LastChar font" "FirstChar font \<le> 105"
    "105 \<le> LastChar font" "unat (72 - FirstChar font) < length (Widths font)"
    "unat (105 - FirstChar font) < length (Widths font)"
  shows "GetWidth (hi_line n font) = Inr 0"
  using assms
  by (simp add: GetWidth_def hi_line_def range_string_def rune_size_def
      CalculateGlyphWidth_def Let_def not_less not_le)

lemma AddTextBlock_hi:
  assumes "fonts ''/F1'' = Some font" and "GetWidth (hi_line n font) = Inr 0"
  shows "AddTextBlock (NewPageRender n fonts) ''BT 10 20 Td /F1 12 Tf (Hi) Tj ET''
           = Inr (hi_page n fonts font)"
  using assms
  by (simp add: scan_ev parse_ev mat_ev NewPageRender_def addLineItem_def new_line_def
      hi_line_def hi_page_def)

lemma GetText_hi_line: "GetText (hi_line n font) False = ''Hi''"
  by (simp add: GetText_def hi_line_def range_string_def rune_size_def
      MinNonSpecialAscii_def MaxNonSpecialAscii_def char_of_eq_iff)

lemma GetIndexedShowOps_hi:
  assumes "is_order orderY" and "is_order orderX"
  shows "GetIndexedShowOps orderY orderX (hi_page n fonts font)
           = ([(2, [(10, hi_line n font)])], ''Hi'' @ [CHR 0x0A], None)"
proof -
  have rn: "rowNumber (hi_line n font) = 2"
    by (simp add: rowNumber_def go_int_def hi_line_def)
  have sx: "StartX (hi_line n font) = 10"
    by (simp add: hi_line_def)
  have loop: "index_loop (LineItems (hi_page n fonts font)) [] None
                = ([(2, [(10, hi_line n font)])], None)"
    by (simp add: hi_page_def rn sx)
  show ?thesis
    by (simp add: GetIndexedShowOps_def loop row_text_def sort_is_order [OF assms(1)]
        sort_is_order [OF assms(2)] GetText_hi_line)
qed

lemma is_order_id: "is_order (\<lambda>ks. ks)"
  by (simp add: is_order_def)

lemma courier_covers:
  "FirstChar courier_F1 \<le> 72" "72 \<le> LastChar courier_F1"
  "FirstChar courier_F1 \<le> 105" "105 \<le> LastChar courier_F1"
  "unat (72 - FirstChar courier_F1) < length (Widths courier_F1)"
  "unat (105 - FirstChar courier_F1) < length (Widths courier_F1)"
  by (simp_all add: courier_F1_def)

text \<open>
  Claim C4, as amended. On a fresh page whose font table maps the name \<open>/F1\<close>, given to
  \<open>Tf\<close>, to a font with both \<open>H\<close> (72) and \<open>i\<close> (105) in its range and in its width
  table, the block \<open>BT 10 20 Td /F1 12 Tf (Hi) Tj ET\<close> is processed with success, leaves
  one line item and the text matrix offset X at 10 plus the computed width of that item,
  and the reconstructed page text is \<open>Hi\<close> followed by the newline that ends its row, for
  every iteration order of the maps.
\<close>

theorem hi_block_text:
  assumes "fonts ''/F1'' = Some font"
    and "FirstChar font \<le> 72" and "72 \<le> LastChar font"
    and "FirstChar font \<le> 105" and "105 \<le> LastChar font"
    and "unat (72 - FirstChar font) < length (Widths font)"
    and "unat (105 - FirstChar font) < length (Widths font)"
    and "is_order orderY" and "is_order orderX"
  shows "\<exists>page line w.
           AddTextBlock (NewPageRender n fonts) ''BT 10 20 Td /F1 12 Tf (Hi) Tj ET'' = Inr page
           \<and> LineItems page = [line] \<and> GetWidth line = Inr w
           \<and> GetOffsetX (TextMatrix page) = 10 + w
           \<and> GetIndexedShowOps orderY orderX page
               = ([(2, [(10, line)])], ''Hi'' @ [CHR 0x0A], None)
           \<and> getTextShowOperations orderY orderX n [''BT 10 20 Td /F1 12 Tf (Hi) Tj ET''] fonts
               = ([(2, [(10, line)])], ''Hi'' @ [CHR 0x0A], None)"
proof -
  have w: "GetWidth (hi_line n font) = Inr 0"
    using assms(2-7) by (rule GetWidth_hi_line)
  have blk: "AddTextBlock (NewPageRender n fonts) ''BT 10 20 Td /F1 12 Tf (Hi) Tj ET''
               = Inr (hi_page n fonts font)"
    using assms(1) w by (rule AddTextBlock_hi)
  have idx: "GetIndexedShowOps orderY orderX (hi_page n fonts font)
               = ([(2, [(10, hi_line n font)])], ''Hi'' @ [CHR 0x0A], None)"
    using assms(8,9) by (rule GetIndexedShowOps_hi)
  have "LineItems (hi_page n fonts font) = [hi_line n font]"
    and "GetOffsetX (TextMatrix (hi_page n fonts font)) = 10 + 0"
    by (simp_all add: hi_page_def GetOffsetX_def)
  moreover have "getTextShowOperations orderY orderX n [''BT 10 20 Td /F1 12 Tf (Hi) Tj ET''] fonts
       = ([(2, [(10, hi_line n font)])], ''Hi'' @ [CHR 0x0A], None)"
    by (simp add: getTextShowOperations_def blk idx)
  ultimately show ?thesis using blk w idx by blast
qed

theorem hi_block_text_witness:
  "fonts_F1 ''/F1'' = Some courier_F1
   \<and> (\<exists>page line w.
         AddTextBlock (NewPageRender 1 fonts_F1) ''BT 10 20 Td /F1 12 Tf (Hi) Tj ET'' = Inr page
         \<and> LineItems page = [line] \<and> GetWidth line = Inr w
         \<and> GetOffsetX (TextMatrix page) = 10 + w
         \<and> GetIndexedShowOps (\<lambda>ks. ks) (\<lambda>ks. ks) page
             = ([(2, [(10, line)])], ''Hi'' @ [CHR 0x0A], None)
         \<and> getTextShowOperations (\<lambda>ks. ks) (\<lambda>ks. ks) 1
               [''BT 10 20 Td /F1 12 Tf (Hi) Tj ET''] fonts_F1
             = ([(2, [(10, line)])], ''Hi'' @ [CHR 0x0A], None))"
proof -
  have f: "fonts_F1 ''/F1'' = Some courier_F1"
    by (simp add: fonts_F1_def)
  show ?thesis
    using f hi_block_text [where orderY = "\<lambda>ks. ks" and orderX = "\<lambda>ks. ks" and n = 1
          and fonts = fonts_F1 and font = courier_F1,
        OF f courier_covers is_order_id is_order_id]
    by simp
qed

text \<open>
  The claim as stated fails: the reconstructed text is not exactly \<open>Hi\<close>, a newline
  follows it.
\<close>

theorem hi_block_text_not_Hi:
  "fst (snd (getTextShowOperations (\<lambda>ks. ks) (\<lambda>ks. ks) 1
               [''BT 10 20 Td /F1 12 Tf (Hi) Tj ET''] fonts_F1)) = ''Hi'' @ [CHR 0x0A]
   \<and> fst (snd (getTextShowOperations (\<lambda>ks. ks) (\<lambda>ks. ks) 1
               [''BT 10 20 Td /F1 12 Tf (Hi) Tj ET''] fonts_F1)) \<noteq> ''Hi''"
proof -
  have f: "fonts_F1 ''/F1'' = Some courier_F1"
    by (simp add: fonts_F1_def)
  have w: "GetWidth (hi_line 1 courier_F1) = Inr 0"
    by (rule GetWidth_hi_line [OF courier_covers])
  show ?thesis
    by (simp add: getTextShowOperations_def AddTextBlock_hi [where fonts = fonts_F1, OF f w]
        GetIndexedShowOps_hi [OF is_order_id is_order_id])
qed




section \<open>Insertion into a row\<close>

lemmas row_consts = rowInsertionPrecision_def maxRowInsertVariance_def minRowInsertBoundary_def
  maxRowInsertBoundary_def LetterPageWidth_def

lemma InsertShowOpIntoRow_free:
  assumes "map_of targetMap index = None"
  shows "InsertShowOpIntoRow object index targetMap
           = (Inr index, AList.update index object targetMap)"
  unfolding InsertShowOpIntoRow_def
  by (subst InsertShowOpIntoRow_loop.simps) (use assms in \<open>simp add: row_consts\<close>)

lemma InsertShowOpIntoRow_occupied:
  assumes "map_of targetMap index = Some a"
    and "map_of targetMap (index + rowInsertionPrecision) = None"
    and "index + rowInsertionPrecision \<le> maxRowInsertBoundary"
  shows "InsertShowOpIntoRow object index targetMap
           = (Inr (index + rowInsertionPrecision), AList.update index object targetMap)"
proof -
  have "InsertShowOpIntoRow_loop object index targetMap 0
          = InsertShowOpIntoRow_loop object index targetMap (0 + rowInsertionPrecision)"
    by (subst InsertShowOpIntoRow_loop.simps) (use assms(1) in \<open>simp add: row_consts\<close>)
  also have "\<dots> = (Inr (index + rowInsertionPrecision), AList.update index object targetMap)"
    by (subst InsertShowOpIntoRow_loop.simps) (use assms(2,3) in \<open>simp add: row_consts\<close>)
  finally show ?thesis by (simp add: InsertShowOpIntoRow_def)
qed

lemma InsertShowOpIntoRow_loop_store:
  "InsertShowOpIntoRow_loop object index targetMap f = (res, row') \<Longrightarrow>
     row' = (case res of Inl err \<Rightarrow> targetMap | Inr placed \<Rightarrow> AList.update index object targetMap)"
proof (induction object index targetMap f rule: InsertShowOpIntoRow_loop.induct)
  case (1 object index targetMap f)
  show ?case
    using "1.prems" "1.IH"
    by (subst (asm) InsertShowOpIntoRow_loop.simps) (auto split: if_splits)
qed

lemma InsertShowOpIntoRow_store:
  "InsertShowOpIntoRow object index targetMap = (res, row') \<Longrightarrow>
     row' = (case res of Inl err \<Rightarrow> targetMap | Inr placed \<Rightarrow> AList.update index object targetMap)"
  unfolding InsertShowOpIntoRow_def by (rule InsertShowOpIntoRow_loop_store)

lemma GetText_show_at:
  "GetText (show_at ''first-text'' x y) False = ''first-text''"
  "GetText (show_at ''second-text'' x y) False = ''second-text''"
  by (simp_all add: GetText_def show_at_def range_string_def rune_size_def
      MinNonSpecialAscii_def MaxNonSpecialAscii_def char_of_eq_iff)

lemma rowNumber_show_at:
  "rowNumber (show_at s x 100) = 10" "rowNumber (show_at s x 104) = 10"
  "rowNumber (show_at s x (-5)) = 0"
  by (simp_all add: rowNumber_def go_int_def show_at_def ceiling_eq_iff)

lemma StartX_show_at: "StartX (show_at s x y) = x"
  by (simp add: show_at_def)


lemma LineItems_items_page: "LineItems (items_page ops) = ops"
  by (simp add: items_page_def)

lemma GetWidth_show_at:
  "GetWidth (show_at ''first-text'' x y) = Inr 0"
  "GetWidth (show_at ''second-text'' x y) = Inr 0"
  by (simp_all add: GetWidth_def show_at_def range_string_def rune_size_def
      CalculateGlyphWidth_def courier_F1_def Let_def)

text \<open>
  Claim C1. When the desired column of a row is occupied, the search of
  \<open>InsertShowOpIntoRow\<close> finds the free column one increment to the right and returns
  it, but both stores of the function write the desired column: with the row
  \<open>{5: first-text}\<close> and the operation \<open>second-text\<close> wanted at 5, the row afterwards
  is \<open>{5: second-text}\<close>. The operation stored before is gone, and the column returned
  holds nothing (\<open>InsertShowOpIntoRow_store\<close> is the general fact: a successful insertion
  is a store at the desired column).
\<close>

theorem InsertShowOpIntoRow_overwrites:
  "InsertShowOpIntoRow (show_at ''second-text'' 5 100) 5 [(5, show_at ''first-text'' 5 100)]
     = (Inr (5 + rowInsertionPrecision), [(5, show_at ''second-text'' 5 100)])
   \<and> show_at ''second-text'' 5 100 \<noteq> show_at ''first-text'' 5 100
   \<and> map_of [(5, show_at ''second-text'' 5 100)] (5 + rowInsertionPrecision) = None"
  by (simp add: InsertShowOpIntoRow_occupied [where a = "show_at ''first-text'' 5 100"]
      row_consts show_at_def)

section \<open>Building the index\<close>


lemma index_loop_forgets_error:
  assumes "map_of showOps (rowNumber showOp) = Some row"
  shows "snd (index_loop [showOp] showOps (Some err))
           = (case fst (InsertShowOpIntoRow showOp (StartX showOp) row) of
                Inl err' \<Rightarrow> Some err' | Inr placed \<Rightarrow> None)"
  using assms by (simp add: Let_def split: prod.splits)



lemma same_row_index:
  "index_loop [show_at ''first-text'' 5 100, show_at ''second-text'' 50 104] [] None
     = ([(10, [(5, show_at ''first-text'' 5 100), (50, show_at ''second-text'' 50 104)])], None)"
  by (simp add: rowNumber_show_at StartX_show_at InsertShowOpIntoRow_free)

lemma collide_index:
  "index_loop [show_at ''first-text'' 5 100, show_at ''second-text'' 5 100] [] None
     = ([(10, [(5, show_at ''second-text'' 5 100)])], None)"
  by (simp add: rowNumber_show_at StartX_show_at
      InsertShowOpIntoRow_occupied [where a = "show_at ''first-text'' 5 100"] row_consts)


lemma AddTextBlock_collide:
  "AddTextBlock (NewPageRender 1 fonts_F1)
       ''BT /F1 12 Tf 5 100 Td (first-text) Tj (second-text) Tj ET''
     = Inr collide_page"
proof -
  have f: "fonts_F1 ''/F1'' = Some courier_F1"
    by (simp add: fonts_F1_def)
  note w = GetWidth_show_at [unfolded show_at_def]
  show ?thesis
    using f w [of 5 100]
    by (simp add: scan_ev parse_ev mat_ev NewPageRender_def addLineItem_def new_line_def
        show_at_def collide_page_def)
qed

text \<open>
  Claim C6. \<open>GetIndexedShowOps\<close> can return success for a page from which a show
  operation was dropped: on a fresh page two \<open>Tj\<close> of one line start at the same point,
  the second insertion overwrites the first operation, and the exporter receives the text
  \<open>second-text\<close> with no error. Nor does the loop stop at an insertion that fails: the
  error of an insertion is replaced by the result of the next insertion into a row that
  exists (\<open>index_loop_forgets_error\<close>).
\<close>

theorem reconstruction_drops_silently:
  "getTextShowOperations (\<lambda>ks. ks) (\<lambda>ks. ks) 1
       [''BT /F1 12 Tf 5 100 Td (first-text) Tj (second-text) Tj ET''] fonts_F1
     = ([(10, [(5, show_at ''second-text'' 5 100)])], ''second-text'' @ [CHR 0x0A], None)"
proof -
  have li: "LineItems collide_page
              = [show_at ''first-text'' 5 100, show_at ''second-text'' 5 100]"
    by (simp add: collide_page_def)
  have "GetIndexedShowOps (\<lambda>ks. ks) (\<lambda>ks. ks) collide_page
          = ([(10, [(5, show_at ''second-text'' 5 100)])], ''second-text'' @ [CHR 0x0A], None)"
    unfolding GetIndexedShowOps_def li collide_index
    by (simp add: row_text_def GetText_show_at)
  then show ?thesis
    by (simp add: getTextShowOperations_def AddTextBlock_collide)
qed

section \<open>Row keys and sorted emission\<close>

lemma row_text_order:
  "is_order orderX \<Longrightarrow> row_text orderX row = row_text (\<lambda>ks. ks) row"
  by (simp add: row_text_def sort_is_order)

lemma GetIndexedShowOps_order:
  assumes "is_order orderY" and "is_order orderX"
  shows "GetIndexedShowOps orderY orderX r = GetIndexedShowOps (\<lambda>ks. ks) (\<lambda>ks. ks) r"
  by (simp add: GetIndexedShowOps_def sort_is_order [OF assms(1)] row_text_order [OF assms(2)]
      split: prod.splits cong: option.case_cong)


lemma same_row_text:
  "GetIndexedShowOps (\<lambda>ks. ks) (\<lambda>ks. ks)
       (items_page [show_at ''first-text'' 5 100, show_at ''second-text'' 50 104])
     = ([(10, [(5, show_at ''first-text'' 5 100), (50, show_at ''second-text'' 50 104)])],
        ''first-textsecond-text'' @ [CHR 0x0A], None)"
  unfolding GetIndexedShowOps_def LineItems_items_page same_row_index
  by (simp add: row_text_def GetText_show_at)

lemma is_order_rev: "is_order rev"
  by (simp add: is_order_def)




text \<open>
  Claim C8. For a fixed page, the index, the text and the error that
  \<open>GetIndexedShowOps\<close> returns, and so the result of the exporter's
  \<open>getTextShowOperations\<close> for fixed blocks and fonts, are the same for any two
  iteration orders of the maps: the keys of the index and of every row are sorted before
  they are read.
\<close>

theorem reconstruction_order_independent:
  assumes "is_order orderY" and "is_order orderX" and "is_order orderY'" and "is_order orderX'"
  shows "GetIndexedShowOps orderY orderX r = GetIndexedShowOps orderY' orderX' r
    \<and> getTextShowOperations orderY orderX n blocks fonts
        = getTextShowOperations orderY' orderX' n blocks fonts"
  by (simp add: getTextShowOperations_def GetIndexedShowOps_order [OF assms(1,2)]
      GetIndexedShowOps_order [OF assms(3,4)] cong: sum.case_cong)


theorem reconstruction_order_independent_witness:
  "is_order (rev :: int list \<Rightarrow> int list) \<and> is_order (rev :: float64 list \<Rightarrow> float64 list)
   \<and> GetIndexedShowOps rev rev
         (items_page [show_at ''first-text'' 5 100, show_at ''second-text'' 50 104])
       = ([(10, [(5, show_at ''first-text'' 5 100), (50, show_at ''second-text'' 50 104)])],
          ''first-textsecond-text'' @ [CHR 0x0A], None)
   \<and> getTextShowOperations rev rev 1 [''BT 10 20 Td /F1 12 Tf (Hi) Tj ET''] fonts_F1
       = getTextShowOperations (\<lambda>ks. ks) (\<lambda>ks. ks) 1
           [''BT 10 20 Td /F1 12 Tf (Hi) Tj ET''] fonts_F1"
  using reconstruction_order_independent [OF is_order_rev is_order_rev is_order_id is_order_id,
      of "items_page [show_at ''first-text'' 5 100, show_at ''second-text'' 50 104]"
        1 "[''BT 10 20 Td /F1 12 Tf (Hi) Tj ET'']" fonts_F1]
  by (simp add: is_order_rev same_row_text)

section \<open>The representation of strings and maps\<close>

text \<open>
  On a string of ASCII bytes a range loop visits every byte with its index. The line move
  on an empty operand cannot fail. A key taken from a map is found in it, and the maps of
  the index keep one entry for each key.
\<close>

lemma range_from_ascii:
  "list_all (\<lambda>c. (of_char c :: nat) < 128) s \<Longrightarrow>
     range_from i s = zip [i..<i + length s] (map of_char s)"
proof (induction s arbitrary: i)
  case Nil
  then show ?case by simp
next
  case (Cons c cs)
  then have c: "(of_char c :: nat) < 128" and cs: "list_all (\<lambda>c. (of_char c :: nat) < 128) cs"
    by simp_all
  have "range_from i (c # cs) = (i, of_char c) # range_from (Suc i) cs"
    using c by (simp add: rune_size_def)
  also have "\<dots> = (i, of_char c) # zip [Suc i..<Suc i + length cs] (map of_char cs)"
    by (simp add: Cons.IH [OF cs])
  also have "\<dots> = zip (i # [Suc i..<Suc i + length cs]) (map of_char (c # cs))"
    by simp
  also have "i # [Suc i..<Suc i + length cs] = [i..<i + length (c # cs)]"
    by (subst (2) upt_rec) simp
  finally show ?case .
qed

lemma line_move_total:
  "\<exists>r'. moveToStartOfNextLine r [] setLeading = Inr r'"
  by (simp add: moveToStartOfNextLine_def Let_def)

lemma map_of_key: "k \<in> set (map fst al) \<Longrightarrow> map_of al k \<noteq> None"
  by (simp add: map_of_eq_None_iff)

lemma InsertShowOpIntoRow_distinct:
  assumes "InsertShowOpIntoRow object index targetMap = (res, row')"
    and "distinct (map fst targetMap)"
  shows "distinct (map fst row')"
  using InsertShowOpIntoRow_store [OF assms(1)] assms(2)
  by (cases res) (simp_all add: distinct_update)

lemma index_loop_distinct:
  "distinct (map fst showOps) \<Longrightarrow> distinct (map fst (fst (index_loop ops showOps pageErr)))"
proof (induction ops arbitrary: showOps pageErr)
  case Nil
  then show ?case by simp
next
  case (Cons showOp ops)
  show ?case
  proof (cases "map_of showOps (rowNumber showOp)")
    case None
    then show ?thesis
      using Cons.prems by (simp add: Let_def Cons.IH distinct_update)
  next
    case (Some row)
    obtain res row' where i: "InsertShowOpIntoRow showOp (StartX showOp) row = (res, row')"
      by (cases "InsertShowOpIntoRow showOp (StartX showOp) row")
    show ?thesis
      using Some i Cons.prems by (simp add: Let_def Cons.IH distinct_update)
  qed
qed

end
